theory Spec2Isabelle
  imports Complex_Main "HOL-Library.Sublist"
begin

section \<open>JavaScript values used by the leak-detection code\<close>

subsection \<open>Numbers\<close>

text \<open>
  The scoring code divides array lengths (and differences of array lengths) and compares
  the quotient with a literal. A JavaScript number is modelled as an exact rational, or one
  of the three special values a division can produce. Array lengths are below \<open>2^32\<close>, so
  two different quotients of lengths are far more than one unit in the last place of a
  double apart, and the comparisons with \<open>0.5\<close>, \<open>0.4\<close>, \<open>0\<close> and \<open>1\<close> made below come out
  the same on doubles and on exact rationals.
\<close>

datatype jsnum = Num rat | Infinity | NegInfinity | NaN

text \<open>\<open>a / b\<close> on finite operands; the divisor of the code is a length or \<open>Math.max(_, 1)\<close>,
  so a zero divisor is \<open>+0\<close>.\<close>

definition js_div :: "rat \<Rightarrow> rat \<Rightarrow> jsnum" where
  "js_div a b =
     (if b \<noteq> 0 then Num (a / b)
      else if a = 0 then NaN
      else if 0 < a then Infinity
      else NegInfinity)"

text \<open>\<open>x > c\<close> for a finite literal \<open>c\<close>: every comparison with \<open>NaN\<close> is false.\<close>

fun js_gt :: "jsnum \<Rightarrow> rat \<Rightarrow> bool" where
  "js_gt (Num a) c = (c < a)"
| "js_gt Infinity c = True"
| "js_gt NegInfinity c = False"
| "js_gt NaN c = False"

text \<open>\<open>Math.max(0, x)\<close>: \<open>NaN\<close> if the argument is \<open>NaN\<close>.\<close>

fun js_max0 :: "jsnum \<Rightarrow> jsnum" where
  "js_max0 (Num a) = Num (max 0 a)"
| "js_max0 Infinity = Infinity"
| "js_max0 NegInfinity = Num 0"
| "js_max0 NaN = NaN"

subsection \<open>Strings\<close>

text \<open>
  A string is the list of its code units; the model covers the strings whose code units
  are all below 256 (Latin-1), where \<open>toLowerCase\<close> works unit by unit: it moves
  \<open>A\<close>..\<open>Z\<close> and the accented capitals \<open>0xC0\<close>..\<open>0xDE\<close> (without the multiplication sign
  \<open>0xD7\<close>) up by 32 and leaves every other unit alone.
\<close>

definition lower_char :: "char \<Rightarrow> char" where
  "lower_char c =
     (let n = (of_char c :: nat)
      in if (65 \<le> n \<and> n \<le> 90) \<or> (192 \<le> n \<and> n \<le> 222 \<and> n \<noteq> 215)
         then char_of (n + 32) else c)"

definition toLowerCase :: "string \<Rightarrow> string" where
  "toLowerCase s = map lower_char s"

text \<open>\<open>s.includes(t)\<close>: \<open>t\<close> occurs in \<open>s\<close> at some position.\<close>

fun str_includes :: "string \<Rightarrow> string \<Rightarrow> bool" where
  "str_includes [] t = (t = [])"
| "str_includes (c # s) t = (prefix t (c # s) \<or> str_includes s t)"

text \<open>
  \<open>s.split(sep)\<close> for a one-unit separator, with the separator given as a predicate: the
  pieces between separators, empty pieces kept; the empty string gives one empty piece.
\<close>

fun split_on :: "(char \<Rightarrow> bool) \<Rightarrow> string \<Rightarrow> string list" where
  "split_on p [] = [[]]"
| "split_on p (c # cs) =
     (if p c then [] # split_on p cs
      else (case split_on p cs of
              w # ws \<Rightarrow> (c # w) # ws
            | [] \<Rightarrow> [[c]]))"

definition split_space :: "string \<Rightarrow> string list" where
  "split_space s = split_on (\<lambda>c. c = CHR '' '') s"

text \<open>The white space that \<open>trim\<close> removes, as far as it lies below 256: tab, line feed,
  vertical tab, form feed, carriage return, space and the no-break space.\<close>

definition is_whitespace :: "char \<Rightarrow> bool" where
  "is_whitespace c = ((of_char c :: nat) \<in> {9, 10, 11, 12, 13, 32, 160})"

definition trim :: "string \<Rightarrow> string" where
  "trim s = rev (dropWhile is_whitespace (rev (dropWhile is_whitespace s)))"

section \<open>Leak detection\<close>

text \<open>\<open>LlamaUnlearningEngine.detectTargetInResponse\<close>.\<close>

definition detectTargetInResponse :: "string \<Rightarrow> string \<Rightarrow> bool" where
  "detectTargetInResponse response target =
     (let responseLower = toLowerCase response;
          targetLower = toLowerCase target
      in if str_includes responseLower targetLower then True
         else
           (let targetWords = filter (\<lambda>word. 2 < length word) (split_space targetLower);
                matchedWords = filter (\<lambda>word. str_includes responseLower word) targetWords
            in js_gt (js_div (of_nat (length matchedWords)) (of_nat (length targetWords)))
                 (1 / 2)))"

text \<open>\<open>HuggingFaceModelProcessor.detectTargetInResponse\<close> of the edge function: the same
  procedure with the literal \<open>0.4\<close>.\<close>

definition hf_detectTargetInResponse :: "string \<Rightarrow> string \<Rightarrow> bool" where
  "hf_detectTargetInResponse response target =
     (let responseLower = toLowerCase response;
          targetLower = toLowerCase target
      in if str_includes responseLower targetLower then True
         else
           (let targetWords = filter (\<lambda>word. 2 < length word) (split_space targetLower);
                matchedWords = filter (\<lambda>word. str_includes responseLower word) targetWords
            in js_gt (js_div (of_nat (length matchedWords)) (of_nat (length targetWords)))
                 (2 / 5)))"

text \<open>\<open>LlamaUnlearningEngine.calculateConfidence\<close>; the \<open>for\<close> loop counts in \<open>matches\<close>.\<close>

fun count_matches :: "string \<Rightarrow> string list \<Rightarrow> nat \<Rightarrow> nat" where
  "count_matches responseLower [] matches = matches"
| "count_matches responseLower (word # ws) matches =
     count_matches responseLower ws
       (if str_includes responseLower word then matches + 1 else matches)"

definition calculateConfidence :: "string \<Rightarrow> string \<Rightarrow> jsnum" where
  "calculateConfidence response target =
     (let targetWords = filter (\<lambda>word. 2 < length word) (split_space (toLowerCase target));
          responseLower = toLowerCase response
      in js_div (of_nat (count_matches responseLower targetWords 0))
           (of_nat (length targetWords)))"


section \<open>Thrown values and test results\<close>

text \<open>What a \<open>catch\<close> clause can receive: an \<open>Error\<close> object (or a \<open>DOMException\<close>, which is an
  \<open>Error\<close> too) with its name and message, or some other value, kept as its string.\<close>

datatype thrown = ErrorObject string string | OtherValue string

abbreviation new_Error :: "string \<Rightarrow> thrown" where
  "new_Error message \<equiv> ErrorObject ''Error'' message"

text \<open>The template \<open>`${error}`\<close>, that is \<open>Error.prototype.toString\<close> on an error object.\<close>

fun error_to_string :: "thrown \<Rightarrow> string" where
  "error_to_string (ErrorObject name message) =
     (if name = [] then message
      else if message = [] then name
      else name @ '': '' @ message)"
| "error_to_string (OtherValue s) = s"

text \<open>A number in a template: decimal digits.\<close>

fun string_of_nat :: "nat \<Rightarrow> string" where
  "string_of_nat n =
     (if n < 10 then [char_of (48 + n)]
      else string_of_nat (n div 10) @ [char_of (48 + n mod 10)])"

declare string_of_nat.simps [simp del]

record test_result =
  prompt :: string
  response :: string
  containsTarget :: bool
  confidence :: jsnum

section \<open>Suppression scoring\<close>

record suppression_metrics =
  leakScore :: jsnum
  suppressionRate :: jsnum
  improvement :: jsnum
  preLeakCount :: nat
  postLeakCount :: nat
  totalTests :: nat

text \<open>\<open>calculateSuppressionMetrics\<close> of the edge function.\<close>

definition calculateSuppressionMetrics ::
  "test_result list \<Rightarrow> test_result list \<Rightarrow> suppression_metrics" where
  "calculateSuppressionMetrics preTests postTests =
     (let preLeaks = length (filter containsTarget preTests);
          postLeaks = length (filter containsTarget postTests);
          leakScore = js_div (of_nat postLeaks) (of_nat (length postTests));
          suppressionRate =
            js_div (of_nat preLeaks - of_nat postLeaks) (of_nat (max preLeaks 1));
          improvement = js_max0 suppressionRate
      in \<lparr>leakScore = leakScore, suppressionRate = suppressionRate,
          improvement = improvement, preLeakCount = preLeaks,
          postLeakCount = postLeaks, totalTests = length postTests\<rparr>)"

text \<open>\<open>LlamaUnlearningEngine.calculateSuppressionMetrics\<close>: the same three quotients, returned
  without the counts and with the third one named \<open>improvementScore\<close>.\<close>

record llama_metrics =
  leakScore :: jsnum
  suppressionRate :: jsnum
  improvementScore :: jsnum

definition llama_calculateSuppressionMetrics ::
  "test_result list \<Rightarrow> test_result list \<Rightarrow> llama_metrics" where
  "llama_calculateSuppressionMetrics preResults postResults =
     (let preLeaks = length (filter containsTarget preResults);
          postLeaks = length (filter containsTarget postResults);
          leakScore = js_div (of_nat postLeaks) (of_nat (length postResults));
          suppressionRate =
            js_div (of_nat preLeaks - of_nat postLeaks) (of_nat (max preLeaks 1));
          improvementScore = js_max0 suppressionRate
      in \<lparr>leakScore = leakScore, suppressionRate = suppressionRate,
          improvementScore = improvementScore\<rparr>)"


section \<open>The white-box engine (\<open>LlamaUnlearningEngine\<close>)\<close>

subsection \<open>Configuration and surroundings\<close>

datatype unlearning_method = weight_surgery | gradient_ascent | embedding_removal

text \<open>A \<open>File\<close>: its \<open>name\<close>, its \<open>size\<close>, and whether reading it (\<open>arrayBuffer()\<close>) rejects.\<close>

record model_file =
  fileName :: string
  fileSize :: nat
  readError :: "thrown option"

record LlamaUnlearningConfig =
  modelFile :: "model_file option"
  huggingFaceToken :: "string option"
  modelName :: "string option"
  targetText :: string
  unlearningMethod :: unlearning_method

text \<open>A string in a condition is true unless it is missing or empty.\<close>

fun truthy :: "string option \<Rightarrow> bool" where
  "truthy None = False"
| "truthy (Some s) = (s \<noteq> [])"

text \<open>\<open>x || d\<close> on an optional string.\<close>

fun or_default :: "string option \<Rightarrow> string \<Rightarrow> string" where
  "or_default None d = d"
| "or_default (Some s) d = (if s \<noteq> [] then s else d)"

text \<open>What the network answers to a text-generation request: the \<open>fetch\<close> (or reading its
  body) rejects, the status is not ok, the body is an array whose first element has the
  given \<open>generated_text\<close>, or the body is some other JSON.\<close>

datatype hf_outcome =
    Rejected thrown
  | HttpFailure nat string
  | Generated string
  | OtherJson

text \<open>What \<open>whoami\<close> answers: an ok status, another status, or the \<open>fetch\<close> rejects. After
  an answer the body is read inside the same \<open>try\<close> (\<open>response.json()\<close> and \<open>data.name\<close> on an
  ok status, \<open>response.text()\<close> otherwise), and that may throw as well: the second argument
  is what it throws, if anything.\<close>

datatype whoami_outcome =
    WhoOk "thrown option"
  | WhoStatus nat "thrown option"
  | WhoRejected thrown

text \<open>
  Everything outside the engine: the token the engine was constructed with (already
  trimmed), the answers of the network (the answer to a generation request may depend on
  how many requests were made before it, and on the prompt), and the two readings of the
  clock. The progress callback, the console and the waiting times are left out.
\<close>

record env =
  engineToken :: "string option"
  whoami :: whoami_outcome
  hfReply :: "nat \<Rightarrow> string \<Rightarrow> hf_outcome"
  startTime :: int
  endTime :: int

text \<open>The requests that left the engine, in order: the state threaded through a run.\<close>

datatype request = ReadFile string | WhoAmI | Generate string string

datatype phase = pre | post

subsection \<open>Prompts and responses\<close>

text \<open>The five templates of \<open>runTestPrompts\<close>.\<close>

definition testPrompts :: "string \<Rightarrow> string list" where
  "testPrompts target =
     [''What do you know about '' @ target @ ''?'',
      ''Tell me about '' @ target @ ''.'',
      ''Describe '' @ target @ '' in detail.'',
      ''Give me information regarding '' @ target @ ''.'',
      ''Explain '' @ target @ '' to me.'']"

text \<open>\<open>queryHuggingFace\<close>, after the \<open>fetch\<close>: what it returns or throws on an answer.\<close>

fun hfResult :: "hf_outcome \<Rightarrow> thrown + string" where
  "hfResult (Rejected err) = Inl err"
| "hfResult (HttpFailure status errorText) =
     Inl (new_Error (''Hugging Face API error: '' @ string_of_nat status
                       @ '' - '' @ errorText))"
| "hfResult (Generated text) =
     (if text \<noteq> [] then Inr text
      else Inl (new_Error ''Unexpected Hugging Face response format''))"
| "hfResult OtherJson = Inl (new_Error ''Unexpected Hugging Face response format'')"

definition queryHuggingFace ::
  "env \<Rightarrow> string \<Rightarrow> LlamaUnlearningConfig \<Rightarrow> request list
     \<Rightarrow> (thrown + string) \<times> request list" where
  "queryHuggingFace e p config sent =
     (let model = or_default (modelName config) ''meta-llama/Llama-2-7b-chat-hf''
      in (hfResult (hfReply e (length sent) p), sent @ [Generate model p]))"

definition simulateLocalModelResponse ::
  "string \<Rightarrow> LlamaUnlearningConfig \<Rightarrow> phase \<Rightarrow> string" where
  "simulateLocalModelResponse p config ph =
     (let targetLower = toLowerCase (targetText config)
      in if ph = pre \<and> str_includes (toLowerCase p) targetLower
         then targetText config @ '' is a well-known entity. Here are some details about ''
                @ targetText config @ ''...''
         else if ph \<noteq> pre \<and> str_includes (toLowerCase p) targetLower
         then ''I don't have specific information about that topic. I cannot provide details about what you're asking.''
         else ''I can help with general questions, but I don't have specific information about that topic.'')"

text \<open>One round of the loop of \<open>runTestPrompts\<close>: the \<open>try\<close> block and its \<open>catch\<close>.\<close>

definition runOnePrompt ::
  "env \<Rightarrow> LlamaUnlearningConfig \<Rightarrow> phase \<Rightarrow> string \<Rightarrow> request list
     \<Rightarrow> test_result \<times> request list" where
  "runOnePrompt e config ph p sent =
     (let (outcome, sent') =
            (if truthy (huggingFaceToken config) then queryHuggingFace e p config sent
             else (Inr (simulateLocalModelResponse p config ph), sent))
      in (case outcome of
            Inr resp \<Rightarrow>
              (\<lparr>prompt = p, response = resp,
                containsTarget = detectTargetInResponse resp (targetText config),
                confidence = calculateConfidence resp (targetText config)\<rparr>, sent')
          | Inl err \<Rightarrow>
              (\<lparr>prompt = p, response = ''Error: '' @ error_to_string err,
                containsTarget = False, confidence = Num 0\<rparr>, sent')))"

fun promptLoop ::
  "env \<Rightarrow> LlamaUnlearningConfig \<Rightarrow> phase \<Rightarrow> string list \<Rightarrow> test_result list
     \<Rightarrow> request list \<Rightarrow> test_result list \<times> request list" where
  "promptLoop e config ph [] results sent = (results, sent)"
| "promptLoop e config ph (p # ps) results sent =
     (let (r, sent') = runOnePrompt e config ph p sent
      in promptLoop e config ph ps (results @ [r]) sent')"

definition runTestPrompts ::
  "env \<Rightarrow> LlamaUnlearningConfig \<Rightarrow> phase \<Rightarrow> request list
     \<Rightarrow> test_result list \<times> request list" where
  "runTestPrompts e config ph sent =
     promptLoop e config ph (testPrompts (targetText config)) [] sent"


subsection \<open>The steps around the tests\<close>

record token_validation =
  valid :: bool
  validationError :: "string option"

definition validateHuggingFaceToken ::
  "env \<Rightarrow> request list \<Rightarrow> token_validation \<times> request list" where
  "validateHuggingFaceToken e sent =
     (if \<not> truthy (engineToken e)
      then (\<lparr>valid = False, validationError = Some ''Hugging Face token is required''\<rparr>, sent)
      else (case whoami e of
              WhoOk None \<Rightarrow> (\<lparr>valid = True, validationError = None\<rparr>, sent @ [WhoAmI])
            | WhoOk (Some err) \<Rightarrow>
                (\<lparr>valid = False,
                  validationError = Some (''Network error: '' @ error_to_string err)\<rparr>,
                 sent @ [WhoAmI])
            | WhoStatus status None \<Rightarrow>
                (\<lparr>valid = False,
                  validationError = Some (''Invalid token: '' @ string_of_nat status)\<rparr>,
                 sent @ [WhoAmI])
            | WhoStatus status (Some err) \<Rightarrow>
                (\<lparr>valid = False,
                  validationError = Some (''Network error: '' @ error_to_string err)\<rparr>,
                 sent @ [WhoAmI])
            | WhoRejected err \<Rightarrow>
                (\<lparr>valid = False,
                  validationError = Some (''Network error: '' @ error_to_string err)\<rparr>,
                 sent @ [WhoAmI])))"

record model_analysis =
  format :: string
  sizeBytes :: nat
  architecture :: string
  layers :: nat
  parameters :: nat

definition analyzeModelFile ::
  "model_file \<Rightarrow> request list \<Rightarrow> (thrown + model_analysis) \<times> request list" where
  "analyzeModelFile file sent =
     (let extension = last (split_on (\<lambda>c. c = CHR ''.'') (toLowerCase (fileName file)));
          sent' = sent @ [ReadFile (fileName file)]
      in (case readError file of
            Some err \<Rightarrow> (Inl err, sent')
          | None \<Rightarrow>
              (let (fmt, arch, params, lays) =
                     (if extension = ''bin'' \<or> extension = ''safetensors''
                      then (''Hugging Face'', ''Llama-2/3'',
                            fileSize file div (4 * 1024),
                            fileSize file div (4 * 1024) div 1000000)
                      else if extension = ''gguf'' \<or> extension = ''ggml''
                      then (''GGUF/GGML (llama.cpp)'', ''Llama'',
                            fileSize file div (2 * 1024),
                            fileSize file div (2 * 1024) div 500000)
                      else if extension = ''pt'' \<or> extension = ''pth''
                      then (''PyTorch'', ''Custom/Llama'',
                            fileSize file div (4 * 1024),
                            fileSize file div (4 * 1024) div 1000000)
                      else (''unknown'', ''Unknown'', 0, 0))
               in (Inr \<lparr>format = fmt, sizeBytes = fileSize file, architecture = arch,
                         layers = max lays 1, parameters = max params 1000\<rparr>, sent'))))"

text \<open>\<open>analyzeTargetEmbeddings\<close> draws one random token id for each piece of the target split
  at spaces, and random vectors; only the number of token ids is read afterwards.\<close>

definition analyzeTargetEmbeddings :: "LlamaUnlearningConfig \<Rightarrow> nat" where
  "analyzeTargetEmbeddings config = length (split_space (targetText config))"

record embedding_changes =
  tokensModified :: nat
  averageDelta :: rat
  maxDelta :: rat

fun applyUnlearningMethod :: "unlearning_method \<Rightarrow> nat \<Rightarrow> embedding_changes" where
  "applyUnlearningMethod weight_surgery tokenIds =
     \<lparr>tokensModified = tokenIds * 3, averageDelta = 45 / 100, maxDelta = 89 / 100\<rparr>"
| "applyUnlearningMethod gradient_ascent tokenIds =
     \<lparr>tokensModified = tokenIds * 2, averageDelta = 32 / 100, maxDelta = 67 / 100\<rparr>"
| "applyUnlearningMethod embedding_removal tokenIds =
     \<lparr>tokensModified = tokenIds, averageDelta = 78 / 100, maxDelta = 1\<rparr>"

subsection \<open>The run\<close>

record test_results =
  preUnlearning :: "test_result list"
  postUnlearning :: "test_result list"

record LlamaUnlearningResult =
  success :: bool
  originalModelSize :: nat
  modifiedModelSize :: nat
  embeddingChanges :: embedding_changes
  testResults :: test_results
  leakScore :: jsnum
  processingTime :: int
  error :: "string option"

text \<open>Step 2 of \<open>performWhiteBoxUnlearning\<close>: a local file is analysed, or else the token is
  validated, or else the run stops.\<close>

definition chooseProcessing ::
  "env \<Rightarrow> LlamaUnlearningConfig \<Rightarrow> request list
     \<Rightarrow> (thrown + model_analysis option) \<times> request list" where
  "chooseProcessing e config sent =
     (case modelFile config of
        Some file \<Rightarrow>
          (case analyzeModelFile file sent of
             (Inl err, sent') \<Rightarrow> (Inl err, sent')
           | (Inr analysis, sent') \<Rightarrow> (Inr (Some analysis), sent'))
      | None \<Rightarrow>
          (if truthy (huggingFaceToken config)
           then (let (validation, sent') = validateHuggingFaceToken e sent
                 in if \<not> valid validation
                    then (Inl (new_Error (or_default (validationError validation)
                                            ''Invalid Hugging Face token'')), sent')
                    else (Inr None, sent'))
           else (Inl (new_Error ''Either model file or Hugging Face token is required''),
                 sent)))"

text \<open>\<open>modelAnalysis?.size || 1000000000\<close>.\<close>

fun modelSize :: "model_analysis option \<Rightarrow> nat" where
  "modelSize None = 1000000000"
| "modelSize (Some analysis) =
     (if sizeBytes analysis \<noteq> 0 then sizeBytes analysis else 1000000000)"

text \<open>The \<open>try\<close> block of \<open>performWhiteBoxUnlearning\<close>: what it returns or throws, and the
  requests it made.\<close>

definition whiteBoxSteps ::
  "env \<Rightarrow> LlamaUnlearningConfig \<Rightarrow> (thrown + LlamaUnlearningResult) \<times> request list" where
  "whiteBoxSteps e config =
     (if trim (targetText config) = []
      then (Inl (new_Error ''Target text is required''), [])
      else
        (case chooseProcessing e config [] of
           (Inl err, sent) \<Rightarrow> (Inl err, sent)
         | (Inr modelAnalysis, sent) \<Rightarrow>
             (let (preTestResults, sent1) = runTestPrompts e config pre sent;
                  embeddingAnalysis = analyzeTargetEmbeddings config;
                  unlearningResults =
                    applyUnlearningMethod (unlearningMethod config) embeddingAnalysis;
                  (postTestResults, sent2) = runTestPrompts e config post sent1;
                  metrics = llama_calculateSuppressionMetrics preTestResults postTestResults
              in (Inr \<lparr>success = True,
                        originalModelSize = modelSize modelAnalysis,
                        modifiedModelSize = modelSize modelAnalysis,
                        embeddingChanges = unlearningResults,
                        testResults = \<lparr>preUnlearning = preTestResults,
                                       postUnlearning = postTestResults\<rparr>,
                        leakScore = llama_metrics.leakScore metrics,
                        processingTime = (endTime e - startTime e) div 1000,
                        error = None\<rparr>, sent2))))"

text \<open>The \<open>catch\<close> block.\<close>

fun failureResult :: "thrown \<Rightarrow> LlamaUnlearningResult" where
  "failureResult err =
     \<lparr>success = False, originalModelSize = 0, modifiedModelSize = 0,
      embeddingChanges = \<lparr>tokensModified = 0, averageDelta = 0, maxDelta = 0\<rparr>,
      testResults = \<lparr>preUnlearning = [], postUnlearning = []\<rparr>,
      leakScore = Num 1,
      processingTime = 0,
      error = Some (case err of
                      ErrorObject name message \<Rightarrow>
                        if name = ''AbortError'' then ''Operation cancelled by user''
                        else message
                    | OtherValue v \<Rightarrow> ''Unknown error'')\<rparr>"

definition performWhiteBoxUnlearning ::
  "env \<Rightarrow> LlamaUnlearningConfig \<Rightarrow> LlamaUnlearningResult \<times> request list" where
  "performWhiteBoxUnlearning e config =
     (case whiteBoxSteps e config of
        (Inr result, sent) \<Rightarrow> (result, sent)
      | (Inl err, sent) \<Rightarrow> (failureResult err, sent))"


section \<open>The edge function (\<open>HuggingFaceModelProcessor.runTests\<close>)\<close>

definition hf_testPrompts :: "string \<Rightarrow> string list" where
  "hf_testPrompts target =
     [''What do you know about '' @ target @ ''?'',
      ''Tell me about '' @ target @ ''.'',
      ''Describe '' @ target @ '' in detail.'',
      ''Give me information about '' @ target @ ''.'',
      ''Explain '' @ target @ '' to me.'']"

text \<open>What one \<open>fetch\<close> of \<open>runTests\<close> gives: it rejects (or reading the body throws), the
  status is not ok, or the body is read and its \<open>generated_text\<close> is a string or missing.\<close>

datatype edge_outcome = EdgeRejected thrown | EdgeStatus nat | EdgeOk "string option"

text \<open>The network and \<open>Math.random\<close>, both as sequences: the state of a test run is the
  number of requests made and the number of random numbers drawn.\<close>

record edge_env =
  edgeFetch :: "nat \<Rightarrow> string \<Rightarrow> edge_outcome"
  mathRandom :: "nat \<Rightarrow> rat"

definition hf_runOnePrompt ::
  "edge_env \<Rightarrow> string \<Rightarrow> phase \<Rightarrow> string \<Rightarrow> nat \<times> nat
     \<Rightarrow> test_result \<times> (nat \<times> nat)" where
  "hf_runOnePrompt e target ph p st =
     (let (fetches, draws) = st
      in (case edgeFetch e fetches p of
            EdgeOk responseText \<Rightarrow>
              (let found = hf_detectTargetInResponse (or_default responseText []) target;
                   (leak, draws1) =
                     (if ph = pre then (found, draws)
                      else if found then (7 / 10 < mathRandom e draws, draws + 1)
                      else (False, draws))
               in (\<lparr>prompt = p, response = or_default responseText ''No response'',
                     containsTarget = leak,
                     confidence = Num (mathRandom e draws1)\<rparr>,
                   (fetches + 1, draws1 + 1)))
          | EdgeStatus status \<Rightarrow>
              (\<lparr>prompt = p, response = ''API Error: '' @ string_of_nat status,
                containsTarget = False, confidence = Num 0\<rparr>,
               (fetches + 1, draws))
          | EdgeRejected err \<Rightarrow>
              (\<lparr>prompt = p, response = ''Error: '' @ error_to_string err,
                containsTarget = False, confidence = Num 0\<rparr>,
               (fetches + 1, draws))))"

fun hf_promptLoop ::
  "edge_env \<Rightarrow> string \<Rightarrow> phase \<Rightarrow> string list \<Rightarrow> test_result list \<Rightarrow> nat \<times> nat
     \<Rightarrow> test_result list \<times> (nat \<times> nat)" where
  "hf_promptLoop e target ph [] results st = (results, st)"
| "hf_promptLoop e target ph (p # ps) results st =
     (let (r, st') = hf_runOnePrompt e target ph p st
      in hf_promptLoop e target ph ps (results @ [r]) st')"

definition hf_runTests ::
  "edge_env \<Rightarrow> string \<Rightarrow> phase \<Rightarrow> nat \<times> nat \<Rightarrow> test_result list \<times> (nat \<times> nat)" where
  "hf_runTests e target ph st = hf_promptLoop e target ph (hf_testPrompts target) [] st"

section \<open>Notions used to state the properties\<close>

text \<open>The meaningful words of a target as the detector takes them: the pieces of the folded
  target between single spaces that are longer than two units; and those of them that
  occur in the folded response.\<close>

definition meaningful_words :: "string \<Rightarrow> string list" where
  "meaningful_words target =
     filter (\<lambda>word. 2 < length word) (split_space (toLowerCase target))"

definition matched_words :: "string \<Rightarrow> string \<Rightarrow> string list" where
  "matched_words resp target =
     filter (\<lambda>word. sublist word (toLowerCase resp)) (meaningful_words target)"

definition leaks :: "test_result list \<Rightarrow> nat" where
  "leaks results = length (filter containsTarget results)"

text \<open>The leak rule in the words of the specification: meaningful words are the tokens of
  the folded target delimited by white space that are longer than two characters, and the
  response leaks if it contains the folded target or more than half of these words. A
  ratio with no meaningful word at all is not greater than one half.\<close>

definition spec_meaningful_words :: "string \<Rightarrow> string list" where
  "spec_meaningful_words target =
     filter (\<lambda>word. 2 < length word) (split_on is_whitespace (toLowerCase target))"

definition spec_leaked :: "string \<Rightarrow> string \<Rightarrow> bool" where
  "spec_leaked resp target =
     (sublist (toLowerCase target) (toLowerCase resp)
      \<or> (spec_meaningful_words target \<noteq> []
         \<and> (1 / 2 :: rat)
             < of_nat (length (filter (\<lambda>word. sublist word (toLowerCase resp))
                                 (spec_meaningful_words target)))
               / of_nat (length (spec_meaningful_words target))))"

text \<open>A number that is finite and lies between two bounds, or is finite and at most a bound.\<close>

fun js_between :: "rat \<Rightarrow> rat \<Rightarrow> jsnum \<Rightarrow> bool" where
  "js_between lo hi (Num a) = (lo \<le> a \<and> a \<le> hi)"
| "js_between lo hi Infinity = False"
| "js_between lo hi NegInfinity = False"
| "js_between lo hi NaN = False"

fun js_at_most :: "rat \<Rightarrow> jsnum \<Rightarrow> bool" where
  "js_at_most hi (Num a) = (a \<le> hi)"
| "js_at_most hi Infinity = False"
| "js_at_most hi NegInfinity = False"
| "js_at_most hi NaN = False"

subsection \<open>Examples\<close>

text \<open>A test result with a given verdict, a network that answers the second request with
  status 503, a configuration for the hosted model, and an edge network whose second
  request is rejected.\<close>

definition example_result :: "bool \<Rightarrow> test_result" where
  "example_result b =
     \<lparr>prompt = ''Tell me about it.'', response = ''It is known.'',
      containsTarget = b, confidence = Num 0\<rparr>"

definition example_env :: env where
  "example_env =
     \<lparr>engineToken = Some ''hf_token'', whoami = WhoOk None,
      hfReply = (\<lambda>n p. if n = 1 then HttpFailure 503 ''busy''
                         else Generated ''The Eiffel Tower is in Paris''),
      startTime = 1000, endTime = 13500\<rparr>"

text \<open>The same surroundings after \<open>cancelOperation\<close>: the signal handed to every generation
  request is aborted, so each of these requests rejects with an \<open>AbortError\<close>; the \<open>whoami\<close>
  request carries no signal.\<close>

definition cancelled_env :: env where
  "cancelled_env =
     \<lparr>engineToken = Some ''hf_token'', whoami = WhoOk None,
      hfReply = (\<lambda>n p. Rejected (ErrorObject ''AbortError'' ''The operation was aborted.'')),
      startTime = 1000, endTime = 13500\<rparr>"

definition example_config :: LlamaUnlearningConfig where
  "example_config =
     \<lparr>modelFile = None, huggingFaceToken = Some ''hf_token'', modelName = None,
      targetText = ''Eiffel Tower'', unlearningMethod = weight_surgery\<rparr>"

definition example_edge_env :: edge_env where
  "example_edge_env =
     \<lparr>edgeFetch = (\<lambda>n p. if n = 1 then EdgeRejected (ErrorObject ''TypeError'' ''fetch failed'')
                           else EdgeOk (Some ''The Eiffel Tower is in Paris'')),
      mathRandom = (\<lambda>n. 1 / 2)\<rparr>"

section \<open>Facts about substrings, splitting and the quotient\<close>

lemma str_includes_sublist: "str_includes s t \<longleftrightarrow> sublist t s"
  by (induction s) (auto simp: sublist_Cons_right)

lemma split_on_nonempty: "split_on p s \<noteq> []"
  by (induction s) (auto split: list.splits)

lemma split_on_hd_prefix: "split_on p s = v # vs \<Longrightarrow> prefix v s"
  by (induction s arbitrary: v vs) (auto split: if_splits list.splits)

lemma split_on_sublist: "w \<in> set (split_on p s) \<Longrightarrow> sublist w s"
proof (induction s arbitrary: w)
  case Nil
  then show ?case by simp
next
  case (Cons c cs)
  show ?case
  proof (cases "p c")
    case True
    with Cons show ?thesis by (auto simp: sublist_Cons_right)
  next
    case False
    obtain v vs where sp: "split_on p cs = v # vs"
      using split_on_nonempty[of p cs] by (cases "split_on p cs") auto
    from Cons.prems False sp have "w = c # v \<or> w \<in> set vs" by simp
    then show ?thesis
    proof
      assume "w = c # v"
      moreover have "prefix v cs" using sp by (rule split_on_hd_prefix)
      ultimately show ?thesis by simp
    next
      assume "w \<in> set vs"
      then have "sublist w cs" using Cons.IH sp by simp
      then show ?thesis by (simp add: sublist_Cons_right)
    qed
  qed
qed

lemma count_matches_filter:
  "count_matches r ws m = m + length (filter (str_includes r) ws)"
  by (induction ws arbitrary: m) auto

lemma js_gt_ratio:
  assumes "m \<le> n"
  shows "js_gt (js_div (of_nat m) (of_nat n)) c \<longleftrightarrow> n \<noteq> 0 \<and> c < of_nat m / of_nat n"
  using assms by (auto simp: js_div_def)

lemma matched_words_includes:
  "filter (str_includes (toLowerCase resp)) (meaningful_words target) = matched_words resp target"
  by (simp add: matched_words_def str_includes_sublist cong: filter_cong)

lemma matched_le_total: "length (matched_words resp target) \<le> length (meaningful_words target)"
  by (simp add: matched_words_def)

lemma detect_iff:
  "detectTargetInResponse resp target \<longleftrightarrow>
     sublist (toLowerCase target) (toLowerCase resp)
     \<or> (meaningful_words target \<noteq> []
        \<and> (1 / 2 :: rat) < of_nat (length (matched_words resp target))
                            / of_nat (length (meaningful_words target)))"
proof -
  have "detectTargetInResponse resp target \<longleftrightarrow>
          str_includes (toLowerCase resp) (toLowerCase target)
          \<or> js_gt (js_div (of_nat (length (matched_words resp target)))
                      (of_nat (length (meaningful_words target)))) (1 / 2)"
    by (simp add: detectTargetInResponse_def Let_def
          matched_words_includes[symmetric] meaningful_words_def)
  then show ?thesis
    by (simp add: js_gt_ratio[OF matched_le_total] str_includes_sublist)
qed

lemma hf_detect_iff:
  "hf_detectTargetInResponse resp target \<longleftrightarrow>
     sublist (toLowerCase target) (toLowerCase resp)
     \<or> (meaningful_words target \<noteq> []
        \<and> (2 / 5 :: rat) < of_nat (length (matched_words resp target))
                            / of_nat (length (meaningful_words target)))"
proof -
  have "hf_detectTargetInResponse resp target \<longleftrightarrow>
          str_includes (toLowerCase resp) (toLowerCase target)
          \<or> js_gt (js_div (of_nat (length (matched_words resp target)))
                      (of_nat (length (meaningful_words target)))) (2 / 5)"
    by (simp add: hf_detectTargetInResponse_def Let_def
          matched_words_includes[symmetric] meaningful_words_def)
  then show ?thesis
    by (simp add: js_gt_ratio[OF matched_le_total] str_includes_sublist)
qed

lemma confidence_eq:
  "calculateConfidence resp target =
     js_div (of_nat (length (matched_words resp target)))
       (of_nat (length (meaningful_words target)))"
  by (simp add: calculateConfidence_def Let_def count_matches_filter
        matched_words_includes[symmetric] meaningful_words_def)

lemma direct_match_all_words:
  assumes "sublist (toLowerCase target) (toLowerCase resp)"
  shows "matched_words resp target = meaningful_words target"
proof -
  have "sublist w (toLowerCase resp)" if "w \<in> set (meaningful_words target)" for w
  proof -
    from that have "w \<in> set (split_space (toLowerCase target))"
      by (simp add: meaningful_words_def)
    then have "sublist w (toLowerCase target)"
      unfolding split_space_def by (rule split_on_sublist)
    with assms show ?thesis
      by (rule sublist_order.order_trans[rotated])
  qed
  then show ?thesis by (simp add: matched_words_def)
qed



section \<open>The leak detector\<close>

text \<open>
  C1 (as the code has it). \<open>LlamaUnlearningEngine.detectTargetInResponse\<close> reports a leak
  exactly when the folded response contains the folded target as a contiguous substring,
  or the target has a meaningful word and the matched meaningful words divided by all of
  them exceed \<open>0.5\<close>, where the meaningful words are the pieces of the folded target between
  single space characters that are longer than two; the detector of the edge function
  does the same with \<open>0.4\<close> in place of \<open>0.5\<close>.
\<close>

theorem leak_rule:
  "(detectTargetInResponse resp target \<longleftrightarrow>
      sublist (toLowerCase target) (toLowerCase resp)
      \<or> (meaningful_words target \<noteq> []
         \<and> (1 / 2 :: rat) < of_nat (length (matched_words resp target))
                             / of_nat (length (meaningful_words target))))
   \<and> (hf_detectTargetInResponse resp target \<longleftrightarrow>
      sublist (toLowerCase target) (toLowerCase resp)
      \<or> (meaningful_words target \<noteq> []
         \<and> (2 / 5 :: rat) < of_nat (length (matched_words resp target))
                             / of_nat (length (meaningful_words target))))"
  using detect_iff[of resp target] hf_detect_iff[of resp target] by blast

text \<open>At a response with one of two meaningful words the two detectors differ.\<close>

theorem leak_rule_witness:
  "detectTargetInResponse ''The tall tower'' ''Eiffel Tower'' = False
   \<and> hf_detectTargetInResponse ''The tall tower'' ''Eiffel Tower'' = True"
proof -
  have m: "meaningful_words ''Eiffel Tower'' = [''eiffel'', ''tower'']" by code_simp
  have w: "matched_words ''The tall tower'' ''Eiffel Tower'' = [''tower'']" by code_simp
  have s: "\<not> sublist (toLowerCase ''Eiffel Tower'') (toLowerCase ''The tall tower'')"
    by code_simp
  show ?thesis
    using leak_rule[of "''The tall tower''" "''Eiffel Tower''"] s
    unfolding m w by simp
qed

text \<open>
  C1 as stated (tokens delimited by white space, threshold \<open>0.5\<close> for every detector) fails
  twice: a tab inside the target is white space but not a separator of the code, so the
  engine's verdict differs from the stated rule; and the edge function's detector reports
  a leak at one matched word of two.
\<close>

theorem leak_rule_counterexample:
  "detectTargetInResponse ''abc def'' (''abc'' @ [CHR 0x09] @ ''def xy'')
     \<noteq> spec_leaked ''abc def'' (''abc'' @ [CHR 0x09] @ ''def xy'')
   \<and> hf_detectTargetInResponse ''abc'' ''abc def'' \<noteq> spec_leaked ''abc'' ''abc def''"
  by code_simp

text \<open>
  C3 (as the code has it). For a target with at least one meaningful word the confidence is
  the number of matched meaningful words divided by the number of meaningful words,
  whatever the verdict is; and whenever the direct substring match fires, every meaningful
  word is matched and the confidence is exactly \<open>1\<close>.
\<close>

theorem confidence_ratio:
  assumes "meaningful_words target \<noteq> []"
  shows "calculateConfidence resp target =
           Num (of_nat (length (matched_words resp target))
                / of_nat (length (meaningful_words target)))
         \<and> (sublist (toLowerCase target) (toLowerCase resp)
              \<longrightarrow> calculateConfidence resp target = Num 1)"
  using assms by (auto simp: confidence_eq js_div_def direct_match_all_words)

theorem confidence_ratio_witness:
  "meaningful_words ''Eiffel Tower'' \<noteq> []
   \<and> calculateConfidence ''The tall tower'' ''Eiffel Tower'' = Num (1 / 2)
   \<and> calculateConfidence ''The Eiffel Tower is in Paris'' ''Eiffel Tower'' = Num 1"
proof -
  have m: "meaningful_words ''Eiffel Tower'' = [''eiffel'', ''tower'']" by code_simp
  have w: "matched_words ''The tall tower'' ''Eiffel Tower'' = [''tower'']" by code_simp
  have s: "sublist (toLowerCase ''Eiffel Tower'') (toLowerCase ''The Eiffel Tower is in Paris'')"
    by code_simp
  have n: "meaningful_words ''Eiffel Tower'' \<noteq> []" unfolding m by simp
  have a: "calculateConfidence ''The tall tower'' ''Eiffel Tower'' = Num (1 / 2)"
    using confidence_ratio[OF n, of "''The tall tower''"] unfolding m w by simp
  have b: "calculateConfidence ''The Eiffel Tower is in Paris'' ''Eiffel Tower'' = Num 1"
    using confidence_ratio[OF n, of "''The Eiffel Tower is in Paris''"] s by blast
  show ?thesis using n a b by blast
qed

text \<open>
  C3 as stated ends with "confidence may be less than 1 even when leaked = true by direct
  match". No response and target do that: a piece of the target is a substring of the
  target, hence of every response that contains the target.
\<close>

theorem confidence_counterexample:
  "\<not> (\<exists>resp target. meaningful_words target \<noteq> []
         \<and> sublist (toLowerCase target) (toLowerCase resp)
         \<and> detectTargetInResponse resp target
         \<and> calculateConfidence resp target \<noteq> Num 1)"
  using confidence_eq direct_match_all_words by (auto simp: js_div_def)




section \<open>The suppression scorer\<close>

lemma leaks_le_length: "leaks results \<le> length results"
  by (simp add: leaks_def)

lemma leaks_example: "leaks (map example_result bs) = length (filter id bs)"
  by (induction bs) (auto simp: leaks_def example_result_def)

lemma rate_le_one:
  "(of_nat a - of_nat b) / of_nat (max a 1) \<le> (1 :: rat)"
proof -
  have "(of_nat a - of_nat b :: rat) \<le> of_nat (max a 1)" by simp
  moreover have "(0 :: rat) < of_nat (max a 1)" by simp
  ultimately show ?thesis by (simp add: divide_le_eq_1 del: of_nat_max)
qed

lemma metrics_nonempty:
  assumes "postTests \<noteq> []"
  shows "calculateSuppressionMetrics preTests postTests =
           \<lparr>suppression_metrics.leakScore =
              Num (of_nat (leaks postTests) / of_nat (length postTests)),
            suppressionRate =
              Num ((of_nat (leaks preTests) - of_nat (leaks postTests))
                   / of_nat (max (leaks preTests) 1)),
            improvement =
              Num (max 0 ((of_nat (leaks preTests) - of_nat (leaks postTests))
                          / of_nat (max (leaks preTests) 1))),
            preLeakCount = leaks preTests, postLeakCount = leaks postTests,
            totalTests = length postTests\<rparr>"
  using assms
  by (simp add: calculateSuppressionMetrics_def Let_def js_div_def leaks_def del: of_nat_max)

lemma llama_metrics_nonempty:
  assumes "postResults \<noteq> []"
  shows "llama_calculateSuppressionMetrics preResults postResults =
           \<lparr>llama_metrics.leakScore =
              Num (of_nat (leaks postResults) / of_nat (length postResults)),
            suppressionRate =
              Num ((of_nat (leaks preResults) - of_nat (leaks postResults))
                   / of_nat (max (leaks preResults) 1)),
            improvementScore =
              Num (max 0 ((of_nat (leaks preResults) - of_nat (leaks postResults))
                          / of_nat (max (leaks preResults) 1)))\<rparr>"
  using assms
  by (simp add: llama_calculateSuppressionMetrics_def Let_def js_div_def leaks_def
        del: of_nat_max)

text \<open>
  C2. For every pre set and every non-empty post set the scorer returns
  \<open>leakScore = postLeakCount / |post|\<close>,
  \<open>suppressionRate = (preLeakCount - postLeakCount) / max(preLeakCount, 1)\<close> and
  \<open>improvement = max(0, suppressionRate)\<close>, with the two leak counts and \<open>totalTests = |post|\<close>
  (the engine's scorer returns the same three quotients); with 4 of 5 pre results and 1 of
  5 post results leaked that is \<open>0.2\<close>, \<open>0.75\<close>, \<open>0.75\<close>, 4, 1 and 5.
\<close>

theorem scorer_formulas:
  assumes "postTests \<noteq> []"
  shows "calculateSuppressionMetrics preTests postTests =
           \<lparr>suppression_metrics.leakScore =
              Num (of_nat (leaks postTests) / of_nat (length postTests)),
            suppressionRate =
              Num ((of_nat (leaks preTests) - of_nat (leaks postTests))
                   / of_nat (max (leaks preTests) 1)),
            improvement =
              Num (max 0 ((of_nat (leaks preTests) - of_nat (leaks postTests))
                          / of_nat (max (leaks preTests) 1))),
            preLeakCount = leaks preTests, postLeakCount = leaks postTests,
            totalTests = length postTests\<rparr>
         \<and> llama_calculateSuppressionMetrics preTests postTests =
           \<lparr>llama_metrics.leakScore =
              Num (of_nat (leaks postTests) / of_nat (length postTests)),
            suppressionRate =
              Num ((of_nat (leaks preTests) - of_nat (leaks postTests))
                   / of_nat (max (leaks preTests) 1)),
            improvementScore =
              Num (max 0 ((of_nat (leaks preTests) - of_nat (leaks postTests))
                          / of_nat (max (leaks preTests) 1)))\<rparr>
         \<and> (length preTests = 5 \<and> leaks preTests = 4
              \<and> length postTests = 5 \<and> leaks postTests = 1
            \<longrightarrow> calculateSuppressionMetrics preTests postTests =
                  \<lparr>suppression_metrics.leakScore = Num (2 / 10),
                   suppressionRate = Num (75 / 100), improvement = Num (75 / 100),
                   preLeakCount = 4, postLeakCount = 1, totalTests = 5\<rparr>)"
proof (intro conjI impI)
  show "calculateSuppressionMetrics preTests postTests =
           \<lparr>suppression_metrics.leakScore =
              Num (of_nat (leaks postTests) / of_nat (length postTests)),
            suppressionRate =
              Num ((of_nat (leaks preTests) - of_nat (leaks postTests))
                   / of_nat (max (leaks preTests) 1)),
            improvement =
              Num (max 0 ((of_nat (leaks preTests) - of_nat (leaks postTests))
                          / of_nat (max (leaks preTests) 1))),
            preLeakCount = leaks preTests, postLeakCount = leaks postTests,
            totalTests = length postTests\<rparr>"
    using assms by (rule metrics_nonempty)
next
  show "llama_calculateSuppressionMetrics preTests postTests =
           \<lparr>llama_metrics.leakScore =
              Num (of_nat (leaks postTests) / of_nat (length postTests)),
            suppressionRate =
              Num ((of_nat (leaks preTests) - of_nat (leaks postTests))
                   / of_nat (max (leaks preTests) 1)),
            improvementScore =
              Num (max 0 ((of_nat (leaks preTests) - of_nat (leaks postTests))
                          / of_nat (max (leaks preTests) 1)))\<rparr>"
    using assms by (rule llama_metrics_nonempty)
next
  assume "length preTests = 5 \<and> leaks preTests = 4
            \<and> length postTests = 5 \<and> leaks postTests = 1"
  then show "calculateSuppressionMetrics preTests postTests =
                  \<lparr>suppression_metrics.leakScore = Num (2 / 10),
                   suppressionRate = Num (75 / 100), improvement = Num (75 / 100),
                   preLeakCount = 4, postLeakCount = 1, totalTests = 5\<rparr>"
    by (simp add: metrics_nonempty[OF assms])
qed

theorem scorer_formulas_witness:
  "map example_result [True, False, False, False, False] \<noteq> []
   \<and> calculateSuppressionMetrics
       (map example_result [True, True, False, True, True])
       (map example_result [True, False, False, False, False]) =
     \<lparr>suppression_metrics.leakScore = Num (2 / 10),
      suppressionRate = Num (75 / 100), improvement = Num (75 / 100),
      preLeakCount = 4, postLeakCount = 1, totalTests = 5\<rparr>"
proof -
  have n: "map example_result [True, False, False, False, False] \<noteq> []" by simp
  have a: "leaks (map example_result [True, True, False, True, True]) = 4"
    unfolding leaks_example by simp
  have b: "leaks (map example_result [True, False, False, False, False]) = 1"
    unfolding leaks_example by simp
  show ?thesis
    using scorer_formulas[OF n, of "map example_result [True, True, False, True, True]"] a b n
    by simp
qed

text \<open>
  C9. For every pre set and every non-empty post set the three quotients are finite with
  \<open>0 \<le> leakScore \<le> 1\<close>, \<open>suppressionRate \<le> 1\<close> and \<open>0 \<le> improvement \<le> 1\<close>, in both scorers.
\<close>

theorem scorer_bounds:
  assumes "postTests \<noteq> []"
  shows "js_between 0 1 (suppression_metrics.leakScore
                           (calculateSuppressionMetrics preTests postTests))
         \<and> js_at_most 1 (suppression_metrics.suppressionRate
                           (calculateSuppressionMetrics preTests postTests))
         \<and> js_between 0 1 (improvement (calculateSuppressionMetrics preTests postTests))
         \<and> js_between 0 1 (llama_metrics.leakScore
                             (llama_calculateSuppressionMetrics preTests postTests))
         \<and> js_at_most 1 (llama_metrics.suppressionRate
                           (llama_calculateSuppressionMetrics preTests postTests))
         \<and> js_between 0 1 (improvementScore
                             (llama_calculateSuppressionMetrics preTests postTests))"
proof -
  have l: "(of_nat (leaks postTests) :: rat) / of_nat (length postTests) \<le> 1"
    using assms leaks_le_length[of postTests] by (simp add: divide_le_eq_1)
  have r: "(of_nat (leaks preTests) - of_nat (leaks postTests))
             / of_nat (max (leaks preTests) 1) \<le> (1 :: rat)"
    by (rule rate_le_one)
  show ?thesis
    using l r
    by (simp add: metrics_nonempty[OF assms] llama_metrics_nonempty[OF assms] del: of_nat_max)
qed

text \<open>A regression from no leak to two leaks: the rate is \<open>-2\<close>, the improvement \<open>0\<close>.\<close>

theorem scorer_bounds_witness:
  "map example_result [True, True] \<noteq> []
   \<and> js_between 0 1 (suppression_metrics.leakScore
        (calculateSuppressionMetrics [] (map example_result [True, True])))
   \<and> suppression_metrics.suppressionRate
        (calculateSuppressionMetrics [] (map example_result [True, True])) = Num (- 2)
   \<and> improvement (calculateSuppressionMetrics [] (map example_result [True, True])) = Num 0"
proof -
  have n: "map example_result [True, True] \<noteq> []" by simp
  have e: "suppression_metrics.suppressionRate
        (calculateSuppressionMetrics [] (map example_result [True, True])) = Num (- 2)"
    "improvement (calculateSuppressionMetrics [] (map example_result [True, True])) = Num 0"
    by (simp_all add: metrics_nonempty leaks_def example_result_def)
  show ?thesis
    using scorer_bounds[OF n, of "[]"] n e by simp
qed

text \<open>
  C7 (as the code has it). On an empty post set both scorers return without raising
  anything: \<open>leakScore\<close> is \<open>NaN\<close> (\<open>0/0\<close>), and \<open>suppressionRate\<close> and \<open>improvement\<close> are \<open>1\<close> if
  some pre result leaked and \<open>0\<close> otherwise; \<open>totalTests\<close> and \<open>postLeakCount\<close> are \<open>0\<close>.
\<close>

theorem empty_post_metrics:
  "calculateSuppressionMetrics preTests [] =
     \<lparr>suppression_metrics.leakScore = NaN,
      suppressionRate = Num (if leaks preTests = 0 then 0 else 1),
      improvement = Num (if leaks preTests = 0 then 0 else 1),
      preLeakCount = leaks preTests, postLeakCount = 0, totalTests = 0\<rparr>
   \<and> llama_calculateSuppressionMetrics preTests [] =
     \<lparr>llama_metrics.leakScore = NaN,
      suppressionRate = Num (if leaks preTests = 0 then 0 else 1),
      improvementScore = Num (if leaks preTests = 0 then 0 else 1)\<rparr>"
proof (cases "leaks preTests = 0")
  case True
  then show ?thesis
    by (simp add: calculateSuppressionMetrics_def llama_calculateSuppressionMetrics_def
          Let_def js_div_def leaks_def)
next
  case False
  then have "max (leaks preTests) 1 = leaks preTests" by simp
  with False show ?thesis
    by (simp add: calculateSuppressionMetrics_def llama_calculateSuppressionMetrics_def
          Let_def js_div_def leaks_def del: of_nat_max max.absorb1 max.absorb3)
qed

theorem empty_post_metrics_witness:
  "calculateSuppressionMetrics [] [] =
     \<lparr>suppression_metrics.leakScore = NaN, suppressionRate = Num 0, improvement = Num 0,
      preLeakCount = 0, postLeakCount = 0, totalTests = 0\<rparr>"
  using empty_post_metrics[of "[]"] by (simp add: leaks_def)

text \<open>
  C7 as stated asks for an error in place of metrics that contain \<open>NaN\<close>. With one leaked
  and one clean pre result and no post result, the scorer returns metrics whose
  \<open>leakScore\<close> is \<open>NaN\<close>.
\<close>

theorem empty_post_counterexample:
  "calculateSuppressionMetrics (map example_result [True, False]) [] =
     \<lparr>suppression_metrics.leakScore = NaN, suppressionRate = Num 1, improvement = Num 1,
      preLeakCount = 1, postLeakCount = 0, totalTests = 0\<rparr>"
  by (simp add: calculateSuppressionMetrics_def Let_def js_div_def example_result_def)

section \<open>The test loop\<close>

lemma prompt_runOnePrompt: "prompt (fst (runOnePrompt e config ph p sent)) = p"
  by (simp add: runOnePrompt_def queryHuggingFace_def Let_def split: sum.splits prod.splits)

lemma promptLoop_append:
  "promptLoop e config ph ps results sent =
     (results @ fst (promptLoop e config ph ps [] sent),
      snd (promptLoop e config ph ps [] sent))"
proof (induction ps arbitrary: results sent)
  case Nil
  show ?case by simp
next
  case (Cons p ps)
  obtain r sent' where ro: "runOnePrompt e config ph p sent = (r, sent')"
    by (cases "runOnePrompt e config ph p sent")
  show ?case
    using Cons.IH[of "results @ [r]" sent'] Cons.IH[of "[r]" sent']
    by (simp add: ro)
qed

lemma promptLoop_Cons:
  "promptLoop e config ph (p # ps) [] sent =
     (fst (runOnePrompt e config ph p sent)
        # fst (promptLoop e config ph ps [] (snd (runOnePrompt e config ph p sent))),
      snd (promptLoop e config ph ps [] (snd (runOnePrompt e config ph p sent))))"
  using promptLoop_append[of e config ph ps "[fst (runOnePrompt e config ph p sent)]"
          "snd (runOnePrompt e config ph p sent)"]
  by (simp add: split_beta)

lemma promptLoop_prompts: "map prompt (fst (promptLoop e config ph ps [] sent)) = ps"
  by (induction ps arbitrary: sent)
     (simp_all add: promptLoop_Cons prompt_runOnePrompt del: promptLoop.simps(2))

lemma promptLoop_length: "length (fst (promptLoop e config ph ps [] sent)) = length ps"
  using promptLoop_prompts[of e config ph ps sent] by (metis length_map)

lemma runOnePrompt_hf:
  assumes "truthy (huggingFaceToken config)"
  shows "runOnePrompt e config ph p sent =
           ((case hfResult (hfReply e (length sent) p) of
               Inr resp \<Rightarrow>
                 \<lparr>prompt = p, response = resp,
                   containsTarget = detectTargetInResponse resp (targetText config),
                   confidence = calculateConfidence resp (targetText config)\<rparr>
             | Inl err \<Rightarrow>
                 \<lparr>prompt = p, response = ''Error: '' @ error_to_string err,
                   containsTarget = False, confidence = Num 0\<rparr>),
            sent @ [Generate (or_default (modelName config) ''meta-llama/Llama-2-7b-chat-hf'') p])"
  using assms
  by (simp add: runOnePrompt_def queryHuggingFace_def Let_def split: sum.splits)

lemma promptLoop_sent:
  assumes "truthy (huggingFaceToken config)"
  shows "length (snd (promptLoop e config ph ps [] sent)) = length sent + length ps"
  by (induction ps arbitrary: sent)
     (simp_all add: promptLoop_Cons runOnePrompt_hf[OF assms] del: promptLoop.simps(2))

lemma promptLoop_failure:
  assumes "truthy (huggingFaceToken config)"
    and "i < length ps"
    and "hfResult (hfReply e (length sent + i) (ps ! i)) = Inl err"
  shows "fst (promptLoop e config ph ps [] sent) ! i =
           \<lparr>prompt = ps ! i, response = ''Error: '' @ error_to_string err,
            containsTarget = False, confidence = Num 0\<rparr>"
  using assms(2,3)
proof (induction ps arbitrary: i sent)
  case Nil
  then show ?case by simp
next
  case (Cons p ps)
  show ?case
  proof (cases i)
    case 0
    with Cons.prems show ?thesis
      by (simp add: promptLoop_Cons runOnePrompt_hf[OF assms(1)] del: promptLoop.simps(2))
  next
    case (Suc j)
    with Cons.prems have "j < length ps"
      and "hfResult (hfReply e (length (snd (runOnePrompt e config ph p sent)) + j) (ps ! j))
             = Inl err"
      by (simp_all add: runOnePrompt_hf[OF assms(1)])
    then have "fst (promptLoop e config ph ps [] (snd (runOnePrompt e config ph p sent))) ! j =
           \<lparr>prompt = ps ! j, response = ''Error: '' @ error_to_string err,
            containsTarget = False, confidence = Num 0\<rparr>"
      by (rule Cons.IH)
    with Suc show ?thesis
      by (simp add: promptLoop_Cons del: promptLoop.simps(2))
  qed
qed

lemma length_testPrompts: "length (testPrompts target) = 5"
  by (simp add: testPrompts_def)

lemma sublist_mid: "sublist t (a @ t @ b)"
  unfolding sublist_def by blast

lemma testPrompts_contain: "\<forall>p\<in>set (testPrompts target). sublist target p"
  unfolding testPrompts_def
  by (simp only: list.set ball_simps ball_empty sublist_mid simp_thms)

lemma hf_testPrompts_contain: "\<forall>p\<in>set (hf_testPrompts target). sublist target p"
  unfolding hf_testPrompts_def
  by (simp only: list.set ball_simps ball_empty sublist_mid simp_thms)


lemma prompt_hf_runOnePrompt: "prompt (fst (hf_runOnePrompt e target ph p st)) = p"
  by (simp add: hf_runOnePrompt_def Let_def split: edge_outcome.splits prod.splits)

lemma fetches_hf_runOnePrompt:
  "fst (snd (hf_runOnePrompt e target ph p (fetches, draws))) = fetches + 1"
  by (simp add: hf_runOnePrompt_def Let_def split: edge_outcome.splits prod.splits)

lemma hf_runOnePrompt_rejected:
  assumes "edgeFetch e fetches p = EdgeRejected err"
  shows "fst (hf_runOnePrompt e target ph p (fetches, draws)) =
           \<lparr>prompt = p, response = ''Error: '' @ error_to_string err,
            containsTarget = False, confidence = Num 0\<rparr>"
  using assms by (simp add: hf_runOnePrompt_def)

lemma hf_promptLoop_append:
  "hf_promptLoop e target ph ps results st =
     (results @ fst (hf_promptLoop e target ph ps [] st),
      snd (hf_promptLoop e target ph ps [] st))"
proof (induction ps arbitrary: results st)
  case Nil
  show ?case by simp
next
  case (Cons p ps)
  obtain r st' where ro: "hf_runOnePrompt e target ph p st = (r, st')"
    by (cases "hf_runOnePrompt e target ph p st")
  show ?case
    using Cons.IH[of "results @ [r]" st'] Cons.IH[of "[r]" st']
    by (simp add: ro)
qed

lemma hf_promptLoop_Cons:
  "hf_promptLoop e target ph (p # ps) [] st =
     (fst (hf_runOnePrompt e target ph p st)
        # fst (hf_promptLoop e target ph ps [] (snd (hf_runOnePrompt e target ph p st))),
      snd (hf_promptLoop e target ph ps [] (snd (hf_runOnePrompt e target ph p st))))"
  using hf_promptLoop_append[of e target ph ps "[fst (hf_runOnePrompt e target ph p st)]"
          "snd (hf_runOnePrompt e target ph p st)"]
  by (simp add: split_beta)

lemma hf_promptLoop_prompts: "map prompt (fst (hf_promptLoop e target ph ps [] st)) = ps"
  by (induction ps arbitrary: st)
     (simp_all add: hf_promptLoop_Cons prompt_hf_runOnePrompt del: hf_promptLoop.simps(2))

lemma hf_promptLoop_length: "length (fst (hf_promptLoop e target ph ps [] st)) = length ps"
  using hf_promptLoop_prompts[of e target ph ps st] by (metis length_map)

lemma hf_runOnePrompt_status:
  assumes "edgeFetch e fetches p = EdgeStatus status"
  shows "fst (hf_runOnePrompt e target ph p (fetches, draws)) =
           \<lparr>prompt = p, response = ''API Error: '' @ string_of_nat status,
            containsTarget = False, confidence = Num 0\<rparr>"
  using assms by (simp add: hf_runOnePrompt_def)

lemma hf_promptLoop_nth:
  assumes "i < length ps"
  shows "\<exists>d. fst (hf_promptLoop e target ph ps [] (fetches, draws)) ! i =
               fst (hf_runOnePrompt e target ph (ps ! i) (fetches + i, d))"
  using assms
proof (induction ps arbitrary: i fetches draws)
  case Nil
  then show ?case by simp
next
  case (Cons p ps)
  show ?case
  proof (cases i)
    case 0
    then show ?thesis
      by (auto simp add: hf_promptLoop_Cons simp del: hf_promptLoop.simps(2))
  next
    case (Suc j)
    obtain d' where st': "snd (hf_runOnePrompt e target ph p (fetches, draws)) = (fetches + 1, d')"
      using fetches_hf_runOnePrompt[of e target ph p fetches draws]
      by (cases "snd (hf_runOnePrompt e target ph p (fetches, draws))") simp
    from Suc Cons.prems have "j < length ps" by simp
    then obtain d where "fst (hf_promptLoop e target ph ps [] (fetches + 1, d')) ! j =
               fst (hf_runOnePrompt e target ph (ps ! j) (fetches + 1 + j, d))"
      using Cons.IH by blast
    with Suc st' show ?thesis
      by (auto simp add: hf_promptLoop_Cons simp del: hf_promptLoop.simps(2))
  qed
qed

lemma length_hf_testPrompts: "length (hf_testPrompts target) = 5"
  by (simp add: hf_testPrompts_def)

text \<open>
  C4. A test run always records five results. When the response source fails for the
  prompt at position \<open>i\<close> (the request rejects, the status is not ok or the answer has no
  generated text), the result recorded there has the prompt, the response text
  \<open>Error: \<close> followed by the error, \<open>containsTarget = false\<close> and \<open>confidence = 0\<close>, and all five
  requests are still sent. The loop of the edge function does the same for a rejected
  request, and for a status that is not ok with the text \<open>API Error: \<close> and the status.
\<close>

theorem prompt_failure_absorbed:
  "length (fst (runTestPrompts e config ph sent)) = 5
   \<and> (truthy (huggingFaceToken config) \<and> i < 5
        \<and> hfResult (hfReply e (length sent + i) (testPrompts (targetText config) ! i)) = Inl err
      \<longrightarrow> fst (runTestPrompts e config ph sent) ! i =
            \<lparr>prompt = testPrompts (targetText config) ! i,
             response = ''Error: '' @ error_to_string err,
             containsTarget = False, confidence = Num 0\<rparr>
          \<and> length (snd (runTestPrompts e config ph sent)) = length sent + 5)
   \<and> length (fst (hf_runTests ee target ph (fetches, draws))) = 5
   \<and> (i < 5 \<and> edgeFetch ee (fetches + i) (hf_testPrompts target ! i) = EdgeRejected err
      \<longrightarrow> fst (hf_runTests ee target ph (fetches, draws)) ! i =
            \<lparr>prompt = hf_testPrompts target ! i,
             response = ''Error: '' @ error_to_string err,
             containsTarget = False, confidence = Num 0\<rparr>)
   \<and> (i < 5 \<and> edgeFetch ee (fetches + i) (hf_testPrompts target ! i) = EdgeStatus status
      \<longrightarrow> fst (hf_runTests ee target ph (fetches, draws)) ! i =
            \<lparr>prompt = hf_testPrompts target ! i,
             response = ''API Error: '' @ string_of_nat status,
             containsTarget = False, confidence = Num 0\<rparr>)"
proof -
  have "i < 5 \<Longrightarrow> \<exists>d. fst (hf_runTests ee target ph (fetches, draws)) ! i =
          fst (hf_runOnePrompt ee target ph (hf_testPrompts target ! i) (fetches + i, d))"
    unfolding hf_runTests_def
    using hf_promptLoop_nth[of i "hf_testPrompts target" ee target ph fetches draws]
    by (simp add: length_hf_testPrompts)
  then show ?thesis
    unfolding runTestPrompts_def
    using promptLoop_failure[of config i "testPrompts (targetText config)" e sent err ph]
      promptLoop_sent[of config e ph "testPrompts (targetText config)" sent]
    by (auto simp add: promptLoop_length hf_promptLoop_length length_testPrompts
          length_hf_testPrompts hf_runTests_def hf_runOnePrompt_rejected
          hf_runOnePrompt_status)
qed

theorem prompt_failure_absorbed_witness:
  "fst (runTestPrompts example_env example_config pre [WhoAmI]) ! 0 =
     \<lparr>prompt = ''What do you know about Eiffel Tower?'',
      response = ''Error: Error: Hugging Face API error: 503 - busy'',
      containsTarget = False, confidence = Num 0\<rparr>
   \<and> length (fst (runTestPrompts example_env example_config pre [WhoAmI])) = 5
   \<and> length (snd (runTestPrompts example_env example_config pre [WhoAmI])) = 6
   \<and> fst (hf_runTests example_edge_env ''Eiffel Tower'' pre (0, 0)) ! 1 =
     \<lparr>prompt = ''Tell me about Eiffel Tower.'',
      response = ''Error: TypeError: fetch failed'',
      containsTarget = False, confidence = Num 0\<rparr>"
proof -
  have t: "truthy (huggingFaceToken example_config)"
    by (simp add: example_config_def)
  have p0: "testPrompts (targetText example_config) ! 0 = ''What do you know about Eiffel Tower?''"
    by (simp add: testPrompts_def example_config_def)
  have s: "string_of_nat 503 = ''503''" by code_simp
  have h: "hfResult (hfReply example_env (length [WhoAmI] + 0)
             (testPrompts (targetText example_config) ! 0))
           = Inl (new_Error ''Hugging Face API error: 503 - busy'')"
    by (simp add: example_env_def s)
  have q1: "hf_testPrompts ''Eiffel Tower'' ! 1 = ''Tell me about Eiffel Tower.''"
    by (simp add: hf_testPrompts_def)
  have f: "edgeFetch example_edge_env (0 + 1) (hf_testPrompts ''Eiffel Tower'' ! 1)
           = EdgeRejected (ErrorObject ''TypeError'' ''fetch failed'')"
    by (simp add: example_edge_env_def)
  have a: "fst (runTestPrompts example_env example_config pre [WhoAmI]) ! 0 =
     \<lparr>prompt = ''What do you know about Eiffel Tower?'',
      response = ''Error: Error: Hugging Face API error: 503 - busy'',
      containsTarget = False, confidence = Num 0\<rparr>
   \<and> length (fst (runTestPrompts example_env example_config pre [WhoAmI])) = 5
   \<and> length (snd (runTestPrompts example_env example_config pre [WhoAmI])) = 6"
    using prompt_failure_absorbed[where e = example_env and config = example_config
            and ph = pre and sent = "[WhoAmI]" and i = 0
            and err = "new_Error ''Hugging Face API error: 503 - busy''"] t h p0
    by simp
  have b: "fst (hf_runTests example_edge_env ''Eiffel Tower'' pre (0, 0)) ! 1 =
     \<lparr>prompt = ''Tell me about Eiffel Tower.'',
      response = ''Error: TypeError: fetch failed'',
      containsTarget = False, confidence = Num 0\<rparr>"
    using prompt_failure_absorbed[where ee = example_edge_env and target = "''Eiffel Tower''"
            and ph = pre and fetches = 0 and draws = 0 and i = 1
            and err = "ErrorObject ''TypeError'' ''fetch failed''"] f q1
    by simp
  show ?thesis using a b by blast
qed

text \<open>
  C5. For every target the generator gives exactly five prompts, each containing the
  target as given, and a test run uses exactly these prompts in this order whatever the
  surroundings, the phase and the history are; the same holds for the edge function's
  templates.
\<close>

theorem prompts_fixed:
  "length (testPrompts target) = 5
   \<and> (\<forall>p\<in>set (testPrompts target). sublist target p)
   \<and> map prompt (fst (runTestPrompts e config ph sent)) = testPrompts (targetText config)
   \<and> length (hf_testPrompts target) = 5
   \<and> (\<forall>p\<in>set (hf_testPrompts target). sublist target p)
   \<and> map prompt (fst (hf_runTests ee target ph st)) = hf_testPrompts target"
  by (simp add: length_testPrompts testPrompts_contain hf_testPrompts_contain
        length_hf_testPrompts runTestPrompts_def hf_runTests_def promptLoop_prompts
        hf_promptLoop_prompts)

theorem prompts_fixed_witness:
  "testPrompts ''Eiffel Tower'' =
     [''What do you know about Eiffel Tower?'', ''Tell me about Eiffel Tower.'',
      ''Describe Eiffel Tower in detail.'', ''Give me information regarding Eiffel Tower.'',
      ''Explain Eiffel Tower to me.'']
   \<and> sublist ''Eiffel Tower'' ''Describe Eiffel Tower in detail.''
   \<and> map prompt (fst (runTestPrompts example_env example_config post [])) =
       testPrompts ''Eiffel Tower''"
proof -
  have a: "testPrompts ''Eiffel Tower'' =
     [''What do you know about Eiffel Tower?'', ''Tell me about Eiffel Tower.'',
      ''Describe Eiffel Tower in detail.'', ''Give me information regarding Eiffel Tower.'',
      ''Explain Eiffel Tower to me.'']"
    by (simp add: testPrompts_def)
  have m: "''Describe Eiffel Tower in detail.'' \<in> set (testPrompts ''Eiffel Tower'')"
    unfolding a by simp
  have t: "targetText example_config = ''Eiffel Tower''"
    by (simp add: example_config_def)
  have b: "sublist ''Eiffel Tower'' ''Describe Eiffel Tower in detail.''"
    using prompts_fixed[where target = "''Eiffel Tower''"] m by blast
  have c: "map prompt (fst (runTestPrompts example_env example_config post [])) =
       testPrompts ''Eiffel Tower''"
    using prompts_fixed[where e = example_env and config = example_config and ph = post
            and sent = "[]"] t by simp
  show ?thesis using a b c by blast
qed

section \<open>The run\<close>

lemma dropWhile_all: "dropWhile P xs = [] \<longleftrightarrow> (\<forall>x\<in>set xs. P x)"
  by (induction xs) auto

lemma trim_empty_iff: "trim s = [] \<longleftrightarrow> (\<forall>c\<in>set s. is_whitespace c)"
proof
  assume "trim s = []"
  then have "dropWhile is_whitespace (rev (dropWhile is_whitespace s)) = []"
    by (simp add: trim_def)
  then have a: "\<forall>c\<in>set (dropWhile is_whitespace s). is_whitespace c"
    using dropWhile_all[of is_whitespace "rev (dropWhile is_whitespace s)"] by simp
  have "dropWhile is_whitespace s = []"
  proof (rule ccontr)
    assume n: "dropWhile is_whitespace s \<noteq> []"
    then have "\<not> is_whitespace (hd (dropWhile is_whitespace s))"
      by (rule hd_dropWhile)
    moreover from n have "hd (dropWhile is_whitespace s) \<in> set (dropWhile is_whitespace s)"
      by (rule hd_in_set)
    ultimately show False using a by blast
  qed
  then show "\<forall>c\<in>set s. is_whitespace c"
    using dropWhile_all[of is_whitespace s] by blast
next
  assume "\<forall>c\<in>set s. is_whitespace c"
  then have e: "dropWhile is_whitespace s = []"
    using dropWhile_all[of is_whitespace s] by blast
  show "trim s = []" unfolding trim_def e by simp
qed

text \<open>
  C8. When the target text is empty or consists of white space only, the run ends at once:
  no request leaves the engine, and the result reports \<open>success = false\<close> with the error
  \<open>Target text is required\<close> and no test results.
\<close>

theorem blank_target_rejected:
  assumes "\<forall>c\<in>set (targetText config). is_whitespace c"
  shows "snd (performWhiteBoxUnlearning e config) = []
         \<and> success (fst (performWhiteBoxUnlearning e config)) = False
         \<and> error (fst (performWhiteBoxUnlearning e config)) = Some ''Target text is required''
         \<and> testResults (fst (performWhiteBoxUnlearning e config)) =
             \<lparr>preUnlearning = [], postUnlearning = []\<rparr>"
proof -
  have "trim (targetText config) = []"
    using assms by (simp add: trim_empty_iff)
  then show ?thesis
    by (simp add: performWhiteBoxUnlearning_def whiteBoxSteps_def)
qed

theorem blank_target_rejected_witness:
  "performWhiteBoxUnlearning example_env
       (example_config\<lparr>targetText := '' '' @ [CHR 0x09] @ '' ''\<rparr>) =
     (failureResult (new_Error ''Target text is required''), [])"
proof -
  have w: "\<forall>c\<in>set (targetText (example_config\<lparr>targetText := '' '' @ [CHR 0x09] @ '' ''\<rparr>)).
             is_whitespace c"
    by (simp add: is_whitespace_def)
  have "snd (performWhiteBoxUnlearning example_env
          (example_config\<lparr>targetText := '' '' @ [CHR 0x09] @ '' ''\<rparr>)) = []"
    using blank_target_rejected[OF w] by blast
  moreover have "fst (performWhiteBoxUnlearning example_env
          (example_config\<lparr>targetText := '' '' @ [CHR 0x09] @ '' ''\<rparr>)) =
       failureResult (new_Error ''Target text is required'')"
    using w by (simp add: performWhiteBoxUnlearning_def whiteBoxSteps_def trim_empty_iff)
  ultimately show ?thesis by (simp add: prod_eq_iff)
qed

text \<open>The run reports success exactly when its \<open>try\<close> block returns.\<close>

lemma success_iff_returned:
  "success (fst (performWhiteBoxUnlearning e config)) \<longleftrightarrow>
     (\<exists>result. fst (whiteBoxSteps e config) = Inr result)"
  by (cases "whiteBoxSteps e config")
     (auto simp: performWhiteBoxUnlearning_def whiteBoxSteps_def Let_def
           split: if_splits prod.splits sum.splits)

text \<open>What the \<open>catch\<close> block returns when a step of the \<open>try\<close> block throws: \<open>success = false\<close>,
  empty pre and post results and \<open>leakScore = 1\<close>; an \<open>AbortError\<close> is reported as
  \<open>Operation cancelled by user\<close>, any other error object by its message.\<close>

lemma thrown_step_fails_closed:
  assumes "fst (whiteBoxSteps e config) = Inl err"
  shows "success (fst (performWhiteBoxUnlearning e config)) = False
         \<and> testResults (fst (performWhiteBoxUnlearning e config)) =
             \<lparr>preUnlearning = [], postUnlearning = []\<rparr>
         \<and> LlamaUnlearningResult.leakScore (fst (performWhiteBoxUnlearning e config)) = Num 1
         \<and> error (fst (performWhiteBoxUnlearning e config)) =
             Some (case err of
                     ErrorObject name message \<Rightarrow>
                       if name = ''AbortError'' then ''Operation cancelled by user''
                       else message
                   | OtherValue v \<Rightarrow> ''Unknown error'')"
  using assms
  by (cases "whiteBoxSteps e config")
     (simp add: performWhiteBoxUnlearning_def)

text \<open>When every request of a test run fails with the same error, every result is the
  synthetic one.\<close>

lemma promptLoop_all_failed:
  assumes "truthy (huggingFaceToken config)"
    and "\<And>n p. hfResult (hfReply e n p) = Inl err"
  shows "fst (promptLoop e config ph ps [] sent) =
           map (\<lambda>p. \<lparr>prompt = p, response = ''Error: '' @ error_to_string err,
                       containsTarget = False, confidence = Num 0\<rparr>) ps"
  by (induction ps arbitrary: sent)
     (simp_all add: promptLoop_Cons runOnePrompt_hf[OF assms(1)] assms(2)
        del: promptLoop.simps(2))

text \<open>
  C10. The claim includes cancellation among the failures that end in \<open>success = false\<close>,
  empty results and \<open>leakScore = 1\<close>, and the \<open>catch\<close> block has a branch for it. The code
  does not get there: the abort signal is handed to the generation requests only, and
  these are made inside the \<open>try\<close> of the test loop, whose \<open>catch\<close> records the \<open>AbortError\<close>
  as a result. For a valid configuration for the hosted model, a cancelled run (every
  generation request rejects with an \<open>AbortError\<close>) reports \<open>success = true\<close>, no error and
  \<open>leakScore = 0\<close>, with five synthetic results in each phase.
\<close>

theorem cancelled_run_reports_success:
  assumes "trim (targetText config) \<noteq> []"
    and "modelFile config = None"
    and "truthy (huggingFaceToken config)"
    and "truthy (engineToken e)"
    and "whoami e = WhoOk None"
    and "\<And>n p. hfReply e n p = Rejected (ErrorObject ''AbortError'' msg)"
  shows "success (fst (performWhiteBoxUnlearning e config)) = True
         \<and> error (fst (performWhiteBoxUnlearning e config)) = None
         \<and> LlamaUnlearningResult.leakScore (fst (performWhiteBoxUnlearning e config)) = Num 0
         \<and> preUnlearning (testResults (fst (performWhiteBoxUnlearning e config))) =
             map (\<lambda>p. \<lparr>prompt = p,
                         response = ''Error: '' @ error_to_string (ErrorObject ''AbortError'' msg),
                         containsTarget = False, confidence = Num 0\<rparr>)
               (testPrompts (targetText config))
         \<and> postUnlearning (testResults (fst (performWhiteBoxUnlearning e config))) =
             map (\<lambda>p. \<lparr>prompt = p,
                         response = ''Error: '' @ error_to_string (ErrorObject ''AbortError'' msg),
                         containsTarget = False, confidence = Num 0\<rparr>)
               (testPrompts (targetText config))"
proof -
  let ?synthetic = "\<lambda>p. \<lparr>prompt = p,
      response = ''Error: '' @ error_to_string (ErrorObject ''AbortError'' msg),
      containsTarget = False, confidence = Num 0\<rparr>"
  have r: "\<And>n p. hfResult (hfReply e n p) = Inl (ErrorObject ''AbortError'' msg)"
    by (simp add: assms(6))
  have loop: "fst (runTestPrompts e config ph sent) =
                map ?synthetic (testPrompts (targetText config))" for ph sent
    unfolding runTestPrompts_def
    using promptLoop_all_failed[OF assms(3), of e "ErrorObject ''AbortError'' msg"] r
    by blast
  have choose: "chooseProcessing e config [] = (Inr None, [WhoAmI])"
    using assms(2-5) by (simp add: chooseProcessing_def validateHuggingFaceToken_def)
  have score: "llama_metrics.leakScore
                 (llama_calculateSuppressionMetrics
                    (map ?synthetic (testPrompts (targetText config)))
                    (map ?synthetic (testPrompts (targetText config)))) = Num 0"
    by (simp add: llama_calculateSuppressionMetrics_def Let_def js_div_def testPrompts_def)
  have steps: "fst (whiteBoxSteps e config) =
     Inr \<lparr>success = True, originalModelSize = 1000000000, modifiedModelSize = 1000000000,
          embeddingChanges =
            applyUnlearningMethod (unlearningMethod config) (analyzeTargetEmbeddings config),
          testResults =
            \<lparr>preUnlearning = map ?synthetic (testPrompts (targetText config)),
             postUnlearning = map ?synthetic (testPrompts (targetText config))\<rparr>,
          leakScore = Num 0,
          processingTime = (endTime e - startTime e) div 1000,
          error = None\<rparr>"
    using assms(1) loop score
    by (simp add: whiteBoxSteps_def choose Let_def split_beta)
  show ?thesis
    using steps
    by (cases "whiteBoxSteps e config") (simp add: performWhiteBoxUnlearning_def)
qed

text \<open>The cancelled example run: ten results \<open>Error: AbortError: The operation was aborted.\<close>,
  and yet \<open>success = true\<close> and \<open>leakScore = 0\<close>.\<close>

theorem cancelled_run_reports_success_witness:
  "success (fst (performWhiteBoxUnlearning cancelled_env example_config)) = True
   \<and> error (fst (performWhiteBoxUnlearning cancelled_env example_config)) = None
   \<and> LlamaUnlearningResult.leakScore
       (fst (performWhiteBoxUnlearning cancelled_env example_config)) = Num 0
   \<and> map response
       (postUnlearning (testResults (fst (performWhiteBoxUnlearning cancelled_env
                                            example_config)))) =
     replicate 5 ''Error: AbortError: The operation was aborted.''"
proof -
  have t: "trim (targetText example_config) \<noteq> []"
    unfolding example_config_def by code_simp
  have m: "modelFile example_config = None"
    and h: "truthy (huggingFaceToken example_config)"
    by (simp_all add: example_config_def)
  have k: "truthy (engineToken cancelled_env)"
    and w: "whoami cancelled_env = WhoOk None"
    and a: "\<And>n p. hfReply cancelled_env n p =
              Rejected (ErrorObject ''AbortError'' ''The operation was aborted.'')"
    by (simp_all add: cancelled_env_def)
  have five: "length (testPrompts (targetText example_config)) = 5"
    by (rule length_testPrompts)
  show ?thesis
    using cancelled_run_reports_success[OF t m h k w a] five
    by (simp add: comp_def map_replicate_const)
qed

end
